theory Spec2Isabelle
  imports Complex_Main
begin

section \<open>Values, positions and GeoJSON features\<close>

text \<open>
  The directive \<open>CircleDirective\<close> of \<open>circle.directive.ts\<close> extends Leaflet's
  \<open>Circle\<close>. JavaScript values that the directive only passes on (style values, the
  feature properties of generic type \<open>T\<close>, the payloads of native events) are values of
  \<open>jsval\<close>; a JavaScript number is a \<open>real\<close>, since the directive does no arithmetic.
\<close>

datatype jsval =
    JUndefined
  | JNull
  | JBool bool
  | JNum real
  | JStr string
  | JObj "(string \<times> jsval) list"

text \<open>A style bag (\<open>PathOptions\<close>) is an object: a map from own property names to values.\<close>

type_synonym pathOptions = "string \<rightharpoonup> jsval"

definition hasOwnProperty :: "pathOptions \<Rightarrow> string \<Rightarrow> bool" where
  "hasOwnProperty obj k = (obj k \<noteq> None)"

text \<open>Reading a property: \<open>undefined\<close> when the object does not have it.\<close>

definition getProperty :: "pathOptions \<Rightarrow> string \<Rightarrow> jsval" where
  "getProperty obj k = (case obj k of Some v \<Rightarrow> v | None \<Rightarrow> JUndefined)"

datatype latLng = LatLng (lat_of: real) (lng_of: real)

text \<open>The three shapes of a position: \<open>LatLng | LatLngTuple | LatLngLiteral\<close>.\<close>

datatype position = Native latLng | Tuple real real | Literal real real

record geometry =
  gtype :: string
  coordinates :: "real list"

record feature =
  ftype :: string
  properties :: jsval
  geometry :: geometry

section \<open>Outputs of the directive\<close>

text \<open>
  One constructor for each \<open>@Output\<close> emitter of the class, carrying the value passed to
  \<open>emit\<close>. The style emitters carry whatever value the bag holds under the key.
\<close>

datatype emission =
    DisplayChange bool
  | StrokeChange jsval
  | ColorChange jsval
  | WeightChange jsval
  | OpacityChange jsval
  | LineCapChange jsval
  | LineJoinChange jsval
  | DashArrayChange jsval
  | DashOffsetChange jsval
  | FillChange jsval
  | FillColorChange jsval
  | FillOpacityChange jsval
  | FillRuleChange jsval
  | ClassNameChange jsval
  | StyleChange pathOptions
  | PositionChange latLng
  | LatChange real
  | LngChange real
  | RadiusChange real
  | GeoJSONChange feature
  | AddEvent jsval
  | RemoveEvent jsval
  | PopupopenEvent jsval
  | PopupcloseEvent jsval
  | TooltipopenEvent jsval
  | TooltipcloseEvent jsval
  | ClickEvent jsval
  | DbclickEvent jsval
  | MousedownEvent jsval
  | MouseoverEvent jsval
  | MouseoutEvent jsval
  | ContextmenuEvent jsval

text \<open>The name of the class field whose \<open>emit\<close> produced an emission.\<close>

fun emitter :: "emission \<Rightarrow> string" where
  "emitter (DisplayChange _) = ''displayChange''"
| "emitter (StrokeChange _) = ''strokeChange''"
| "emitter (ColorChange _) = ''colorChange''"
| "emitter (WeightChange _) = ''weightChange''"
| "emitter (OpacityChange _) = ''opacityChange''"
| "emitter (LineCapChange _) = ''lineCapChange''"
| "emitter (LineJoinChange _) = ''lineJoinChange''"
| "emitter (DashArrayChange _) = ''dashArrayChange''"
| "emitter (DashOffsetChange _) = ''dashOffsetChange''"
| "emitter (FillChange _) = ''fillChange''"
| "emitter (FillColorChange _) = ''fillColorChange''"
| "emitter (FillOpacityChange _) = ''fillOpacityChange''"
| "emitter (FillRuleChange _) = ''fillRuleChange''"
| "emitter (ClassNameChange _) = ''classNameChange''"
| "emitter (StyleChange _) = ''styleChange''"
| "emitter (PositionChange _) = ''positionChange''"
| "emitter (LatChange _) = ''latChange''"
| "emitter (LngChange _) = ''lngChange''"
| "emitter (RadiusChange _) = ''radiusChange''"
| "emitter (GeoJSONChange _) = ''geoJSONChange''"
| "emitter (AddEvent _) = ''addEvent''"
| "emitter (RemoveEvent _) = ''removeEvent''"
| "emitter (PopupopenEvent _) = ''popupopenEvent''"
| "emitter (PopupcloseEvent _) = ''popupcloseEvent''"
| "emitter (TooltipopenEvent _) = ''tooltipopenEvent''"
| "emitter (TooltipcloseEvent _) = ''tooltipcloseEvent''"
| "emitter (ClickEvent _) = ''clickEvent''"
| "emitter (DbclickEvent _) = ''dbclickEvent''"
| "emitter (MousedownEvent _) = ''mousedownEvent''"
| "emitter (MouseoverEvent _) = ''mouseoverEvent''"
| "emitter (MouseoutEvent _) = ''mouseoutEvent''"
| "emitter (ContextmenuEvent _) = ''contextmenuEvent''"

section \<open>The state of a directive instance\<close>

text \<open>
  What \<open>getElement()\<close> yields when the directive probes the rendering container: the
  call raises (the \<open>catch\<close> branches); or it returns \<open>undefined\<close>, as its declared type
  \<open>Element | undefined\<close> allows, and reading \<open>container.style\<close> then raises a
  \<open>TypeError\<close> outside the \<open>try\<close>; or it returns the container, of which the
  directive reads and writes \<open>style.display\<close> and reads \<open>parentElement\<close>.
\<close>

record container =
  style_display :: string
  parentElement :: "string option"

datatype probe = Throws | Undefined | Element container

text \<open>
  The fields of \<open>this\<close> that the directive reads or writes: those of the Leaflet
  object (\<open>_latlng\<close>, \<open>_mRadius\<close>, \<open>options\<close>, \<open>feature\<close>, \<open>_map\<close>, the rendering
  container, the listeners registered with \<open>on\<close>, the bound popup and tooltip), the
  class's own (\<open>popupDirective\<close>, \<open>tooltipDirective\<close>, \<open>initialized\<close>), and the log
  of everything the emitters have emitted, oldest first.
\<close>

record circle =
  latlng :: latLng
  mRadius :: real
  options :: pathOptions
  feature :: feature
  map_ref :: "string option"
  element :: probe
  listeners :: "(string \<times> (jsval \<Rightarrow> emission)) list"
  popup :: "jsval option"
  tooltip :: "jsval option"
  popupDirective :: "jsval option"
  tooltipDirective :: "jsval option"
  initialized :: bool
  emitted :: "emission list"

definition emit :: "emission \<Rightarrow> circle \<Rightarrow> circle" where
  "emit e st = st\<lparr>emitted := emitted st @ [e]\<rparr>"

text \<open>A statement \<open>if (b) { this.xChange.emit(v); }\<close>.\<close>

definition emit_if :: "bool \<Rightarrow> emission \<Rightarrow> circle \<Rightarrow> circle" where
  "emit_if b e st = (if b then emit e st else st)"

text \<open>What running \<open>f\<close> from \<open>st\<close> adds to the log.\<close>

definition emissions_of :: "(circle \<Rightarrow> circle) \<Rightarrow> circle \<Rightarrow> emission list" where
  "emissions_of f st = drop (length (emitted st)) (emitted (f st))"

section \<open>The methods of Leaflet's Circle that the directive calls\<close>

text \<open>
  The base class \<open>Circle\<close> is Leaflet's and is not part of the repository. Its methods
  that the directive calls through \<open>super\<close> or \<open>this\<close> are modelled on the fields above.
\<close>

text \<open>
  Modelled from the spec: Leaflet's \<open>toLatLng\<close> is missing. A position is accepted in
  three equivalent shapes (ordered pair, named-field object, native value) and normalised
  to one canonical representation.
\<close>

fun toLatLng :: "position \<Rightarrow> latLng" where
  "toLatLng (Native l) = l"
| "toLatLng (Tuple a b) = LatLng a b"
| "toLatLng (Literal a b) = LatLng a b"

text \<open>
  Modelled from the spec: \<open>Circle.setLatLng\<close> of the base class is missing. The
  primitive's \<open>setPosition\<close> normalises the value and keeps it as its position.
\<close>

definition Circle_setLatLng :: "position \<Rightarrow> circle \<Rightarrow> circle" where
  "Circle_setLatLng val st = st\<lparr>latlng := toLatLng val\<rparr>"

text \<open>
  Modelled from the spec: \<open>Circle.setRadius\<close> of the base class is missing. Reads of
  the radius return the radius that was set last.
\<close>

definition Circle_setRadius :: "real \<Rightarrow> circle \<Rightarrow> circle" where
  "Circle_setRadius val st = st\<lparr>mRadius := val\<rparr>"

text \<open>
  Modelled from the spec: \<open>Path.setStyle\<close> of the base class is missing. Partial
  updates are supported: only the keys present in an update are applied to the style.
\<close>

definition Path_setStyle :: "pathOptions \<Rightarrow> circle \<Rightarrow> circle" where
  "Path_setStyle style st = st\<lparr>options := options st ++ style\<rparr>"

text \<open>
  Modelled from the spec: \<open>Circle.toGeoJSON\<close> of the base class is missing. The
  geometry-interchange export is the feature of the primitive, with its properties, and
  with a point geometry that reflects the last-applied position, longitude first.
\<close>

definition Circle_toGeoJSON :: "circle \<Rightarrow> feature" where
  "Circle_toGeoJSON st =
     (feature st)\<lparr>geometry :=
        \<lparr>gtype = ''Point'', coordinates = [lng_of (latlng st), lat_of (latlng st)]\<rparr>\<rparr>"

section \<open>The directive's methods\<close>

subsection \<open>setStyle and the style properties\<close>

definition setStyle :: "pathOptions \<Rightarrow> circle \<Rightarrow> circle" where
  "setStyle style st0 =
     (let st1 = Path_setStyle style st0;
          st2 = emit_if (hasOwnProperty style ''stroke'') (StrokeChange (getProperty style ''stroke'')) st1;
          st3 = emit_if (hasOwnProperty style ''color'') (ColorChange (getProperty style ''color'')) st2;
          st4 = emit_if (hasOwnProperty style ''weight'') (WeightChange (getProperty style ''weight'')) st3;
          st5 = emit_if (hasOwnProperty style ''opacity'') (OpacityChange (getProperty style ''opacity'')) st4;
          st6 = emit_if (hasOwnProperty style ''lineCap'') (LineCapChange (getProperty style ''lineCap'')) st5;
          st7 = emit_if (hasOwnProperty style ''lineJoin'') (LineJoinChange (getProperty style ''lineJoin'')) st6;
          st8 = emit_if (hasOwnProperty style ''dashArray'') (DashArrayChange (getProperty style ''dashArray'')) st7;
          st9 = emit_if (hasOwnProperty style ''dashOffset'') (DashOffsetChange (getProperty style ''dashOffset'')) st8;
          st10 = emit_if (hasOwnProperty style ''fill'') (FillChange (getProperty style ''fill'')) st9;
          st11 = emit_if (hasOwnProperty style ''fillColor'') (FillColorChange (getProperty style ''fillColor'')) st10;
          st12 = emit_if (hasOwnProperty style ''fillOpacity'') (FillOpacityChange (getProperty style ''fillOpacity'')) st11;
          st13 = emit_if (hasOwnProperty style ''fillRule'') (FillRuleChange (getProperty style ''fillRule'')) st12;
          st14 = emit_if (hasOwnProperty style ''className'') (ClassNameChange (getProperty style ''className'')) st13
      in emit (StyleChange style) st14)"

text \<open>
  The keys that \<open>setStyle\<close> tests with \<open>hasOwnProperty\<close>, in the order of its \<open>if\<close>
  statements, each with the emitter of its branch.
\<close>

definition style_emitters :: "(string \<times> (jsval \<Rightarrow> emission)) list" where
  "style_emitters =
     [(''stroke'', StrokeChange), (''color'', ColorChange), (''weight'', WeightChange),
      (''opacity'', OpacityChange), (''lineCap'', LineCapChange), (''lineJoin'', LineJoinChange),
      (''dashArray'', DashArrayChange), (''dashOffset'', DashOffsetChange), (''fill'', FillChange),
      (''fillColor'', FillColorChange), (''fillOpacity'', FillOpacityChange),
      (''fillRule'', FillRuleChange), (''className'', ClassNameChange)]"

text \<open>The emissions of the \<open>if\<close> statements of \<open>setStyle\<close>, in order.\<close>

definition specific_emissions :: "pathOptions \<Rightarrow> emission list" where
  "specific_emissions style =
     concat (map (\<lambda>(k, mk). if hasOwnProperty style k then [mk (getProperty style k)] else [])
       style_emitters)"

text \<open>The setter of each style property passes a bag with that one key to \<open>setStyle\<close>.\<close>

definition opacity_set :: "real \<Rightarrow> circle \<Rightarrow> circle" where
  "opacity_set val st = setStyle [''opacity'' \<mapsto> JNum val] st"

definition stroke_set :: "bool \<Rightarrow> circle \<Rightarrow> circle" where
  "stroke_set val st = setStyle [''stroke'' \<mapsto> JBool val] st"

definition color_set :: "string \<Rightarrow> circle \<Rightarrow> circle" where
  "color_set val st = setStyle [''color'' \<mapsto> JStr val] st"

definition weight_set :: "real \<Rightarrow> circle \<Rightarrow> circle" where
  "weight_set val st = setStyle [''weight'' \<mapsto> JNum val] st"

definition lineCap_set :: "string \<Rightarrow> circle \<Rightarrow> circle" where
  "lineCap_set val st = setStyle [''lineCap'' \<mapsto> JStr val] st"

definition lineJoin_set :: "string \<Rightarrow> circle \<Rightarrow> circle" where
  "lineJoin_set val st = setStyle [''lineJoin'' \<mapsto> JStr val] st"

definition dashArray_set :: "string \<Rightarrow> circle \<Rightarrow> circle" where
  "dashArray_set val st = setStyle [''dashArray'' \<mapsto> JStr val] st"

definition dashOffset_set :: "string \<Rightarrow> circle \<Rightarrow> circle" where
  "dashOffset_set val st = setStyle [''dashOffset'' \<mapsto> JStr val] st"

definition fill_set :: "bool \<Rightarrow> circle \<Rightarrow> circle" where
  "fill_set val st = setStyle [''fill'' \<mapsto> JBool val] st"

definition fillColor_set :: "string \<Rightarrow> circle \<Rightarrow> circle" where
  "fillColor_set val st = setStyle [''fillColor'' \<mapsto> JStr val] st"

definition fillOpacity_set :: "real \<Rightarrow> circle \<Rightarrow> circle" where
  "fillOpacity_set val st = setStyle [''fillOpacity'' \<mapsto> JNum val] st"

definition fillRule_set :: "string \<Rightarrow> circle \<Rightarrow> circle" where
  "fillRule_set val st = setStyle [''fillRule'' \<mapsto> JStr val] st"

definition className_set :: "string \<Rightarrow> circle \<Rightarrow> circle" where
  "className_set val st = setStyle [''className'' \<mapsto> JStr val] st"

definition style_set :: "pathOptions \<Rightarrow> circle \<Rightarrow> circle" where
  "style_set val st = setStyle val st"

definition style_get :: "circle \<Rightarrow> pathOptions" where
  "style_get st = options st"

definition opacity_get :: "circle \<Rightarrow> jsval" where
  "opacity_get st = getProperty (options st) ''opacity''"

subsection \<open>Position, radius and GeoJSON\<close>

definition geoJSON_get :: "circle \<Rightarrow> feature" where
  "geoJSON_get st = Circle_toGeoJSON st"

definition setLatLng :: "position \<Rightarrow> circle \<Rightarrow> circle" where
  "setLatLng val st0 =
     (let st1 = Circle_setLatLng val st0
      in if \<not> initialized st1 then st1
         else
           (let st2 = emit (PositionChange (latlng st1)) st1;
                st3 = emit (LatChange (lat_of (latlng st2))) st2;
                st4 = emit (LngChange (lng_of (latlng st3))) st3
            in emit (GeoJSONChange (geoJSON_get st4)) st4))"

definition position_set :: "position \<Rightarrow> circle \<Rightarrow> circle" where
  "position_set val st = setLatLng val st"

definition position_get :: "circle \<Rightarrow> latLng" where
  "position_get st = latlng st"

definition lat_get :: "circle \<Rightarrow> real" where
  "lat_get st = lat_of (latlng st)"

definition lng_get :: "circle \<Rightarrow> real" where
  "lng_get st = lng_of (latlng st)"

definition lat_set :: "real \<Rightarrow> circle \<Rightarrow> circle" where
  "lat_set val st = setLatLng (Tuple val (lng_get st)) st"

definition lng_set :: "real \<Rightarrow> circle \<Rightarrow> circle" where
  "lng_set val st = setLatLng (Tuple (lat_get st) val) st"

definition setRadius :: "real \<Rightarrow> circle \<Rightarrow> circle" where
  "setRadius val st = emit (RadiusChange val) (Circle_setRadius val st)"

definition radius_set :: "real \<Rightarrow> circle \<Rightarrow> circle" where
  "radius_set val st = setRadius val st"

definition radius_get :: "circle \<Rightarrow> real" where
  "radius_get st = mRadius st"

text \<open>
  Errors: an \<open>Error\<close> with its message, as the \<open>geoJSON\<close> setter throws it, and the
  \<open>TypeError\<close> of reading a property of \<open>undefined\<close>.
  The \<open>geoJSON\<close> setter can throw. Its result is the error thrown, if any, together with
  the state at that moment: what the setter has written before the \<open>throw\<close> stays written.
  The function \<open>lng2lat\<close> is imported from \<open>./lng2lat\<close>, another file of the
  repository, and is a parameter here.
\<close>

datatype error = Error string | TypeError

definition geoJSON_set ::
  "(real list \<Rightarrow> position) \<Rightarrow> feature \<Rightarrow> circle \<Rightarrow> error option \<times> circle" where
  "geoJSON_set lng2lat val st0 =
     (let st1 = st0\<lparr>feature := (feature st0)\<lparr>properties := properties val\<rparr>\<rparr>;
          geomType = gtype (geometry val)
      in if geomType \<noteq> ''Point''
         then (Some (Error (''Unsupported geometry type: '' @ geomType)), st1)
         else (None, setLatLng (lng2lat (coordinates (geometry val))) st1))"

definition properties_set :: "jsval \<Rightarrow> circle \<Rightarrow> circle" where
  "properties_set val st0 =
     (let st1 = st0\<lparr>feature := (feature st0)\<lparr>properties := val\<rparr>\<rparr>
      in emit (GeoJSONChange (geoJSON_get st1)) st1)"

definition properties_get :: "circle \<Rightarrow> jsval" where
  "properties_get st = properties (feature st)"

subsection \<open>Display and interactivity\<close>

definition display_get :: "circle \<Rightarrow> error + bool" where
  "display_get st =
     (case element st of
        Throws \<Rightarrow> Inr False
      | Undefined \<Rightarrow> Inl TypeError
      | Element container \<Rightarrow>
          Inr (style_display container \<noteq> ''none'' \<and> parentElement container \<noteq> None))"

text \<open>
  The setter reads \<open>this.display\<close> first, so an error of the getter leaves the setter
  there. After the \<open>try\<close>, the setter emits and then writes \<open>container.style.display\<close>;
  on \<open>undefined\<close> that write raises after the emission.
\<close>

definition display_set :: "bool \<Rightarrow> circle \<Rightarrow> error option \<times> circle" where
  "display_set val st =
     (case display_get st of
        Inl err \<Rightarrow> (Some err, st)
      | Inr isDisplayed \<Rightarrow>
          if isDisplayed = val then (None, st)
          else
            (case element st of
               Throws \<Rightarrow> (None, st)
             | Undefined \<Rightarrow> (Some TypeError, emit (DisplayChange val) st)
             | Element container \<Rightarrow>
                 (None,
                  (emit (DisplayChange val) st)
                    \<lparr>element := Element (container\<lparr>style_display := (if val then '''' else ''none'')\<rparr>)\<rparr>)))"



subsection \<open>Native events, construction and the life cycle\<close>

text \<open>
  \<open>this.on(type, handler)\<close> appends a listener; a native event of a type runs the
  listeners registered for that type, in the order of their registration. Every handler
  that the directive registers emits one value on one emitter.
\<close>

definition on :: "string \<Rightarrow> (jsval \<Rightarrow> emission) \<Rightarrow> circle \<Rightarrow> circle" where
  "on type handler st = st\<lparr>listeners := listeners st @ [(type, handler)]\<rparr>"

definition fire :: "string \<Rightarrow> jsval \<Rightarrow> circle \<Rightarrow> circle" where
  "fire type event st =
     foldl (\<lambda>s (type', handler). if type' = type then emit (handler event) s else s)
       st (listeners st)"

text \<open>
  The constructor. \<open>super([0, 0])\<close> stores the normalised position; radius and options
  start at Leaflet's documented defaults; a fresh \<open>Circle\<close> has no \<open>feature\<close>, no map, no
  rendering container yet, no listener, no popup and no tooltip, so that \<open>this.feature\<close>
  becomes the literal of the source; \<open>initialized\<close> starts \<open>false\<close> and every emitter is
  new. \<open>mapComponent.addLayer\<close> belongs to \<open>./map.component\<close> and is a parameter.
\<close>

definition Path_default_options :: pathOptions where
  "Path_default_options = map_of
     [(''stroke'', JBool True), (''color'', JStr ''#3388ff''), (''weight'', JNum 3),
      (''opacity'', JNum 1), (''lineCap'', JStr ''round''), (''lineJoin'', JStr ''round''),
      (''dashArray'', JNull), (''dashOffset'', JNull), (''fill'', JBool True),
      (''fillColor'', JNull), (''fillOpacity'', JNum 0.2), (''fillRule'', JStr ''evenodd''),
      (''interactive'', JBool True), (''radius'', JNum 10)]"

definition constructor :: "(circle \<Rightarrow> circle) \<Rightarrow> circle" where
  "constructor addLayer =
     (let st0 = \<lparr>latlng = toLatLng (Tuple 0 0), mRadius = 10, options = Path_default_options,
                 feature = \<lparr>ftype = ''Feature'', properties = JObj [],
                            geometry = \<lparr>gtype = ''Point'', coordinates = []\<rparr>\<rparr>,
                 map_ref = None, element = Undefined, listeners = [], popup = None, tooltip = None,
                 popupDirective = None, tooltipDirective = None,
                 initialized = False, emitted = []\<rparr>;
          st1 = on ''remove'' (\<lambda>_. DisplayChange False) st0;
          st2 = on ''add'' (\<lambda>_. DisplayChange True) st1;
          st3 = addLayer st2;
          st4 = on ''add'' AddEvent st3;
          st5 = on ''remove'' RemoveEvent st4;
          st6 = on ''popupopen'' PopupopenEvent st5;
          st7 = on ''popupclose'' PopupcloseEvent st6;
          st8 = on ''tooltipopen'' TooltipopenEvent st7;
          st9 = on ''tooltipclose'' TooltipcloseEvent st8;
          st10 = on ''click'' ClickEvent st9;
          st11 = on ''dbclick'' DbclickEvent st10;
          st12 = on ''mousedown'' MousedownEvent st11;
          st13 = on ''mouseover'' MouseoverEvent st12;
          st14 = on ''mouseout'' MouseoutEvent st13
      in on ''contextmenu'' ContextmenuEvent st14)"

text \<open>
  Modelled from the spec: \<open>bindPopup\<close> and \<open>bindTooltip\<close> of the base class are
  missing. A descriptor that is present is bound to the primitive.
\<close>

definition bindPopup :: "jsval \<Rightarrow> circle \<Rightarrow> circle" where
  "bindPopup p st = st\<lparr>popup := Some p\<rparr>"

definition bindTooltip :: "jsval \<Rightarrow> circle \<Rightarrow> circle" where
  "bindTooltip t st = st\<lparr>tooltip := Some t\<rparr>"

definition ngAfterContentInit :: "circle \<Rightarrow> circle" where
  "ngAfterContentInit st0 =
     (let st1 = st0\<lparr>initialized := True\<rparr>;
          st2 = (case popupDirective st1 of Some p \<Rightarrow> bindPopup p st1 | None \<Rightarrow> st1)
      in (case tooltipDirective st2 of Some t \<Rightarrow> bindTooltip t st2 | None \<Rightarrow> st2))"

text \<open>\<open>removeFrom\<close> of the base class is a parameter, as the hooks are.\<close>

definition ngOnDestroy :: "(string option \<Rightarrow> circle \<Rightarrow> circle) \<Rightarrow> circle \<Rightarrow> circle" where
  "ngOnDestroy removeFrom st = removeFrom (map_ref st) st"

text \<open>
  Leaflet's renderer hooks of a path, and its \<open>Map.addLayer\<close> on a map that is loaded, as
  far as the fields above show them. \<open>onRemove\<close> takes the path's element out of the
  renderer's container; \<open>onAdd\<close> makes the element anew and puts it into the container.
  Neither hook fires an event: \<open>add\<close> and \<open>remove\<close> are fired by the map's \<open>addLayer\<close>
  and \<open>removeLayer\<close>, after they have called the hook. The directive's methods take the
  hooks as parameters; these definitions are what the parameters are in a running page.
\<close>

definition Path_onRemove :: "string option \<Rightarrow> circle \<Rightarrow> circle" where
  "Path_onRemove m st =
     st\<lparr>element :=
          (case element st of
             Throws \<Rightarrow> Throws
           | Undefined \<Rightarrow> Undefined
           | Element container \<Rightarrow> Element (container\<lparr>parentElement := None\<rparr>))\<rparr>"

definition Path_onAdd :: "string option \<Rightarrow> circle \<Rightarrow> circle" where
  "Path_onAdd m st = st\<lparr>element := Element \<lparr>style_display = '''', parentElement = Some ''g''\<rparr>\<rparr>"

definition Map_addLayer :: "string \<Rightarrow> circle \<Rightarrow> circle" where
  "Map_addLayer m st =
     fire ''add'' (JObj [(''type'', JStr ''add'')]) (Path_onAdd (Some m) (st\<lparr>map_ref := Some m\<rparr>))"

text \<open>Whether the rendering container exists without a parent element.\<close>

definition detached :: "circle \<Rightarrow> bool" where
  "detached st =
     (case element st of
        Throws \<Rightarrow> False
      | Undefined \<Rightarrow> False
      | Element container \<Rightarrow> parentElement container = None)"

section \<open>Properties\<close>

lemma emitted_emit [simp]: "emitted (emit e st) = emitted st @ [e]"
  by (simp add: emit_def)

lemma emitted_emit_if [simp]:
  "emitted (emit_if b e st) = emitted st @ (if b then [e] else [])"
  by (simp add: emit_if_def)

lemma emissions_ofI: "emitted (f st) = emitted st @ new \<Longrightarrow> emissions_of f st = new"
  by (simp add: emissions_of_def)

lemma emitted_setStyle:
  "emitted (setStyle style st) = emitted st @ specific_emissions style @ [StyleChange style]"
  by (simp add: setStyle_def specific_emissions_def style_emitters_def Path_setStyle_def
      Let_def del: if_split cong: if_cong)

subsection \<open>What setStyle emits\<close>

lemma emissions_setStyle:
  "emissions_of (setStyle style) st = specific_emissions style @ [StyleChange style]"
  by (rule emissions_ofI) (rule emitted_setStyle)

lemma options_setStyle: "options (setStyle style st) = options st ++ style"
  by (simp add: setStyle_def Path_setStyle_def Let_def emit_def emit_if_def)

text \<open>
  In a table of keys and emitters whose emitter is named after its key, the emissions of
  one emitter are those of the one entry with that key. Induction on the table.
\<close>

lemma filter_table_absent:
  assumes "\<forall>(k', mk') \<in> set tab. \<forall>v. emitter (mk' v) = k' @ ''Change''"
    and "k \<notin> fst ` set tab"
  shows "filter (\<lambda>e. emitter e = k @ ''Change'')
           (concat (map (\<lambda>(k', mk'). if hasOwnProperty style k' then [mk' (getProperty style k')] else []) tab))
         = []"
  using assms
proof (induction tab)
  case Nil
  then show ?case by simp
next
  case (Cons p tab)
  obtain k' mk' where p: "p = (k', mk')" by (cases p)
  from Cons.prems p have "k' \<noteq> k" and "\<forall>v. emitter (mk' v) = k' @ ''Change''"
    by auto
  then have "emitter (mk' (getProperty style k')) \<noteq> k @ ''Change''" by simp
  moreover from Cons have "filter (\<lambda>e. emitter e = k @ ''Change'')
           (concat (map (\<lambda>(k', mk'). if hasOwnProperty style k' then [mk' (getProperty style k')] else []) tab))
         = []" by simp
  ultimately show ?case using p by simp
qed

lemma filter_table:
  assumes "distinct (map fst tab)"
    and "\<forall>(k', mk') \<in> set tab. \<forall>v. emitter (mk' v) = k' @ ''Change''"
    and "(k, mk) \<in> set tab"
  shows "filter (\<lambda>e. emitter e = k @ ''Change'')
           (concat (map (\<lambda>(k', mk'). if hasOwnProperty style k' then [mk' (getProperty style k')] else []) tab))
         = (if hasOwnProperty style k then [mk (getProperty style k)] else [])"
  using assms
proof (induction tab)
  case Nil
  then show ?case by simp
next
  case (Cons p tab)
  obtain k' mk' where p: "p = (k', mk')" by (cases p)
  show ?case
  proof (cases "k' = k")
    case True
    with Cons.prems p have "mk' = mk"
      by (auto simp: image_iff)
    moreover have "filter (\<lambda>e. emitter e = k @ ''Change'')
           (concat (map (\<lambda>(k', mk'). if hasOwnProperty style k' then [mk' (getProperty style k')] else []) tab)) = []"
      using Cons.prems p True by (intro filter_table_absent) auto
    ultimately show ?thesis using Cons.prems p True by simp
  next
    case False
    with Cons.prems p have "(k, mk) \<in> set tab" by auto
    with Cons.IH Cons.prems have "filter (\<lambda>e. emitter e = k @ ''Change'')
           (concat (map (\<lambda>(k', mk'). if hasOwnProperty style k' then [mk' (getProperty style k')] else []) tab))
         = (if hasOwnProperty style k then [mk (getProperty style k)] else [])" by simp
    then show ?thesis using Cons.prems p False by simp
  qed
qed

lemma style_emitters_distinct: "distinct (map fst style_emitters)"
  by (simp add: style_emitters_def)

lemma style_emitters_names:
  "\<forall>(k', mk') \<in> set style_emitters. \<forall>v. emitter (mk' v) = k' @ ''Change''"
  by (simp add: style_emitters_def)

lemma style_emitters_not_style: "(k, mk) \<in> set style_emitters \<Longrightarrow> k \<noteq> ''style''"
  by (auto simp: style_emitters_def)

lemma specific_not_styleChange:
  "filter (\<lambda>e. emitter e = ''styleChange'') (specific_emissions style) = []"
  using filter_table_absent [OF style_emitters_names, of "''style''" style]
  by (simp add: specific_emissions_def style_emitters_def)

text \<open>
  C1, as amended. \<open>setStyle\<close> tests thirteen keys (stroke, color, weight, opacity,
  lineCap, lineJoin, dashArray, dashOffset, fill, fillColor, fillOpacity, fillRule,
  className). For each of them and for every bag and every prior state, the emitter of
  that key emits during \<open>setStyle\<close> exactly when the key is an own property of the bag,
  then once and with the bag's value, whatever the style was before. \<open>display\<close> is not
  a key of \<open>setStyle\<close>: for no bag does \<open>setStyle\<close> emit display-changed.
\<close>

theorem setStyle_specific_iff_own:
  assumes "(k, mk) \<in> set style_emitters"
  shows "filter (\<lambda>e. emitter e = k @ ''Change'') (emissions_of (setStyle style) st)
           = (if hasOwnProperty style k then [mk (getProperty style k)] else []) \<and>
         filter (\<lambda>e. emitter e = ''displayChange'') (emissions_of (setStyle style) st) = []"
proof -
  have "k \<noteq> ''style''" using assms by (rule style_emitters_not_style)
  then have "emitter (StyleChange style) \<noteq> k @ ''Change''" by simp
  then have own: "filter (\<lambda>e. emitter e = k @ ''Change'') (emissions_of (setStyle style) st)
           = (if hasOwnProperty style k then [mk (getProperty style k)] else [])"
    unfolding emissions_setStyle specific_emissions_def
    using filter_table [OF style_emitters_distinct style_emitters_names assms, of style]
    by simp
  have "filter (\<lambda>e. emitter e = ''displayChange'') (specific_emissions style) = []"
    using filter_table_absent [OF style_emitters_names, of "''display''" style]
    by (simp add: specific_emissions_def style_emitters_def)
  then have "filter (\<lambda>e. emitter e = ''displayChange'') (emissions_of (setStyle style) st) = []"
    by (simp add: emissions_setStyle)
  with own show ?thesis by (rule conjI)
qed

theorem setStyle_specific_iff_own_witness:
  "(''opacity'', OpacityChange) \<in> set style_emitters \<and>
   filter (\<lambda>e. emitter e = ''opacityChange'')
     (emissions_of (setStyle (map_of [(''opacity'', JNum 1)])) (constructor (Map_addLayer ''map'')))
     = [OpacityChange (JNum 1)] \<and>
   filter (\<lambda>e. emitter e = ''opacityChange'')
     (emissions_of (setStyle (map_of [(''color'', JStr ''red'')])) (constructor (Map_addLayer ''map'')))
     = []"
proof -
  have m: "(''opacity'', OpacityChange) \<in> set style_emitters"
    by (simp add: style_emitters_def)
  show ?thesis
    using m setStyle_specific_iff_own [OF m, THEN conjunct1, of "map_of [(''opacity'', JNum 1)]"]
      setStyle_specific_iff_own [OF m, THEN conjunct1, of "map_of [(''color'', JStr ''red'')]"]
    by (simp add: hasOwnProperty_def getProperty_def)
qed

text \<open>
  C1 as stated counts \<open>display\<close> among the keys of \<open>setStyle\<close>. A bag whose only own
  property is \<open>display\<close> makes \<open>setStyle\<close> emit the style-changed notification and
  nothing else: no display-changed notification.
\<close>

theorem setStyle_display_key_counterexample:
  "hasOwnProperty (map_of [(''display'', JBool False)]) ''display'' \<and>
   emissions_of (setStyle (map_of [(''display'', JBool False)])) (constructor (Map_addLayer ''map''))
     = [StyleChange (map_of [(''display'', JBool False)])]"
  by (simp add: emissions_setStyle specific_emissions_def style_emitters_def hasOwnProperty_def)

text \<open>
  C2, as amended. For every bag, \<open>setStyle\<close> emits the style-changed notification
  exactly once and last, after the notifications of the keys; its payload is the bag that
  was passed in. The merged style is what the primitive's options hold afterwards.
\<close>

theorem setStyle_styleChange_once_last:
  "filter (\<lambda>e. emitter e = ''styleChange'') (emissions_of (setStyle style) st) = [StyleChange style] \<and>
   last (emissions_of (setStyle style) st) = StyleChange style \<and>
   butlast (emissions_of (setStyle style) st) = specific_emissions style \<and>
   options (setStyle style st) = options st ++ style"
  by (simp add: emissions_setStyle specific_not_styleChange options_setStyle)

theorem setStyle_styleChange_once_last_witness:
  "filter (\<lambda>e. emitter e = ''styleChange'')
     (emissions_of (setStyle (map_of [(''opacity'', JNum 1)])) (constructor (Map_addLayer ''map'')))
     = [StyleChange (map_of [(''opacity'', JNum 1)])]"
  by (rule setStyle_styleChange_once_last [THEN conjunct1])

text \<open>
  C2 as stated has the merged style as the payload. After the colour was set to red, the
  bag \<open>{opacity: 1}\<close> is emitted as it is: it has no \<open>color\<close>, and the merged style
  has one.
\<close>

theorem setStyle_payload_counterexample:
  "last (emissions_of (setStyle (map_of [(''opacity'', JNum 1)]))
           (color_set ''red'' (constructor (Map_addLayer ''map''))))
     \<noteq> StyleChange (options (setStyle (map_of [(''opacity'', JNum 1)])
           (color_set ''red'' (constructor (Map_addLayer ''map'')))))"
proof -
  have "map_of [(''opacity'', JNum 1)] ''color'' = None" by simp
  moreover have "options (setStyle (map_of [(''opacity'', JNum 1)])
      (color_set ''red'' (constructor (Map_addLayer ''map'')))) ''color'' = Some (JStr ''red'')"
    by (simp add: options_setStyle color_set_def map_add_def)
  ultimately have "map_of [(''opacity'', JNum 1)]
      \<noteq> options (setStyle (map_of [(''opacity'', JNum 1)])
           (color_set ''red'' (constructor (Map_addLayer ''map''))))"
    by (metis option.distinct(1))
  then show ?thesis by (simp add: emissions_setStyle)
qed

subsection \<open>A constructed directive on a loaded map\<close>

lemma emitted_fold_handlers:
  "emitted (foldl (\<lambda>s (type', handler). if type' = t then emit (handler e) s else s) s0 ls)
     = emitted s0 @ map (\<lambda>(type', handler). handler e) (filter (\<lambda>(type', handler). type' = t) ls)"
  by (induction ls arbitrary: s0) (auto simp: emit_def)

lemma emitted_fire:
  "emitted (fire t e st)
     = emitted st @ map (\<lambda>(type', handler). handler e) (filter (\<lambda>(type', handler). type' = t) (listeners st))"
  by (simp add: fire_def emitted_fold_handlers)

lemma fire_only_emits: "fire t e st = st\<lparr>emitted := emitted (fire t e st)\<rparr>"
proof -
  have "foldl (\<lambda>s (type', handler). if type' = t then emit (handler e) s else s) s0 ls
      = s0\<lparr>emitted := emitted (foldl (\<lambda>s (type', handler). if type' = t then emit (handler e) s else s) s0 ls)\<rparr>"
    for s0 ls
    by (induction ls arbitrary: s0) (auto simp: emit_def emitted_fold_handlers)
  then show ?thesis by (simp add: fire_def)
qed

lemma Map_addLayer_eq:
  "Map_addLayer m st =
     st\<lparr>map_ref := Some m,
        element := Element \<lparr>style_display = '''', parentElement = Some ''g''\<rparr>,
        emitted := emitted st @ map (\<lambda>(type', handler). handler (JObj [(''type'', JStr ''add'')]))
           (filter (\<lambda>(type', handler). type' = ''add'') (listeners st))\<rparr>"
  unfolding Map_addLayer_def
  by (subst fire_only_emits) (simp add: emitted_fire Path_onAdd_def)

lemma constructor_on_map:
  "constructor (Map_addLayer ''map'') =
     \<lparr>latlng = LatLng 0 0, mRadius = 10, options = Path_default_options,
      feature = \<lparr>ftype = ''Feature'', properties = JObj [],
                 geometry = \<lparr>gtype = ''Point'', coordinates = []\<rparr>\<rparr>,
      map_ref = Some ''map'',
      element = Element \<lparr>style_display = '''', parentElement = Some ''g''\<rparr>,
      listeners =
        [(''remove'', \<lambda>_. DisplayChange False), (''add'', \<lambda>_. DisplayChange True),
         (''add'', AddEvent), (''remove'', RemoveEvent), (''popupopen'', PopupopenEvent),
         (''popupclose'', PopupcloseEvent), (''tooltipopen'', TooltipopenEvent),
         (''tooltipclose'', TooltipcloseEvent), (''click'', ClickEvent),
         (''dbclick'', DbclickEvent), (''mousedown'', MousedownEvent),
         (''mouseover'', MouseoverEvent), (''mouseout'', MouseoutEvent),
         (''contextmenu'', ContextmenuEvent)],
      popup = None, tooltip = None, popupDirective = None, tooltipDirective = None,
      initialized = False, emitted = [DisplayChange True]\<rparr>"
  by (simp add: constructor_def Map_addLayer_eq on_def Let_def)

subsection \<open>Position and GeoJSON\<close>

lemma latlng_setLatLng: "latlng (setLatLng val st) = toLatLng val"
  by (simp add: setLatLng_def Circle_setLatLng_def Let_def emit_def)

lemma feature_setLatLng: "feature (setLatLng val st) = feature st"
  by (simp add: setLatLng_def Circle_setLatLng_def Let_def emit_def)

lemma initialized_setLatLng: "initialized (setLatLng val st) = initialized st"
  by (simp add: setLatLng_def Circle_setLatLng_def Let_def emit_def)

lemma geoJSON_get_setLatLng:
  "geoJSON_get (setLatLng val st) =
     (feature st)\<lparr>geometry :=
        \<lparr>gtype = ''Point'', coordinates = [lng_of (toLatLng val), lat_of (toLatLng val)]\<rparr>\<rparr>"
  by (simp add: geoJSON_get_def Circle_toGeoJSON_def latlng_setLatLng feature_setLatLng)

lemma emitted_setLatLng:
  "emitted (setLatLng val st) = emitted st @
     (if initialized st
      then [PositionChange (toLatLng val), LatChange (lat_of (toLatLng val)),
            LngChange (lng_of (toLatLng val)), GeoJSONChange (geoJSON_get (setLatLng val st))]
      else [])"
  by (simp add: setLatLng_def Circle_setLatLng_def Let_def emit_def geoJSON_get_def
      Circle_toGeoJSON_def)

lemma initialized_ngAfterContentInit: "initialized (ngAfterContentInit st)"
  by (simp add: ngAfterContentInit_def bindPopup_def bindTooltip_def Let_def split: option.splits)

lemma initialized_on: "initialized (on t h st) = initialized st"
  by (simp add: on_def)

lemma listeners_on: "listeners (on t h st) = listeners st @ [(t, h)]"
  by (simp add: on_def)

lemma initialized_constructor:
  "initialized (constructor addLayer) =
     initialized (addLayer
       (on ''add'' (\<lambda>_. DisplayChange True) (on ''remove'' (\<lambda>_. DisplayChange False)
         \<lparr>latlng = toLatLng (Tuple 0 0), mRadius = 10, options = Path_default_options,
           feature = \<lparr>ftype = ''Feature'', properties = JObj [],
                      geometry = \<lparr>gtype = ''Point'', coordinates = []\<rparr>\<rparr>,
           map_ref = None, element = Undefined, listeners = [], popup = None, tooltip = None,
           popupDirective = None, tooltipDirective = None,
           initialized = False, emitted = []\<rparr>)))"
  by (simp only: constructor_def Let_def initialized_on)

text \<open>
  C3. For every position value of the three shapes, \<open>setLatLng\<close> stores the normalised
  position in the primitive whether or not initialisation has completed, and it emits the
  position-changed, latitude-changed, longitude-changed and GeoJSON-changed notifications,
  in this order and with the new normalised values, exactly when \<open>initialized\<close> is set;
  otherwise it emits nothing. \<open>ngAfterContentInit\<close> sets the flag, and the constructor
  leaves it unset (the map's \<open>addLayer\<close> not touching it).
\<close>

theorem setLatLng_emits_iff_initialized:
  "latlng (setLatLng val st) = toLatLng val \<and>
   emissions_of (setLatLng val) st =
     (if initialized st
      then [PositionChange (toLatLng val), LatChange (lat_of (toLatLng val)),
            LngChange (lng_of (toLatLng val)),
            GeoJSONChange ((feature st)\<lparr>geometry :=
              \<lparr>gtype = ''Point'', coordinates = [lng_of (toLatLng val), lat_of (toLatLng val)]\<rparr>\<rparr>)]
      else []) \<and>
   initialized (ngAfterContentInit st) \<and>
   ((\<forall>s. initialized (addLayer s) = initialized s) \<longrightarrow> \<not> initialized (constructor addLayer))"
proof -
  have "emissions_of (setLatLng val) st =
     (if initialized st
      then [PositionChange (toLatLng val), LatChange (lat_of (toLatLng val)),
            LngChange (lng_of (toLatLng val)), GeoJSONChange (geoJSON_get (setLatLng val st))]
      else [])"
    by (rule emissions_ofI) (rule emitted_setLatLng)
  moreover have "(\<forall>s. initialized (addLayer s) = initialized s) \<longrightarrow> \<not> initialized (constructor addLayer)"
    by (simp add: initialized_constructor initialized_on)
  ultimately show ?thesis
    by (simp add: latlng_setLatLng geoJSON_get_setLatLng initialized_ngAfterContentInit)
qed

theorem setLatLng_emits_iff_initialized_witness:
  "(\<forall>s. initialized (Map_addLayer ''map'' s) = initialized s) \<and>
   \<not> initialized (constructor (Map_addLayer ''map'')) \<and>
   emissions_of (setLatLng (Tuple 1 2)) (constructor (Map_addLayer ''map'')) = [] \<and>
   latlng (setLatLng (Tuple 1 2) (constructor (Map_addLayer ''map''))) = LatLng 1 2 \<and>
   emissions_of (setLatLng (Literal 1 2)) (ngAfterContentInit (constructor (Map_addLayer ''map''))) =
     [PositionChange (LatLng 1 2), LatChange 1, LngChange 2,
      GeoJSONChange \<lparr>ftype = ''Feature'', properties = JObj [],
                     geometry = \<lparr>gtype = ''Point'', coordinates = [2, 1]\<rparr>\<rparr>]"
proof -
  let ?c = "constructor (Map_addLayer ''map'')"
  have a: "\<forall>s. initialized (Map_addLayer ''map'' s) = initialized s"
    by (simp add: Map_addLayer_eq)
  note before = setLatLng_emits_iff_initialized [of "Tuple 1 2" ?c "Map_addLayer ''map''"]
  note after = setLatLng_emits_iff_initialized
    [of "Literal 1 2" "ngAfterContentInit ?c" "Map_addLayer ''map''"]
  have n: "\<not> initialized ?c"
    using a before by (simp only: simp_thms)
  have e: "emissions_of (setLatLng (Tuple 1 2)) ?c = []"
    using n before by (simp only: if_False simp_thms)
  have l: "latlng (setLatLng (Tuple 1 2) ?c) = LatLng 1 2"
    using before by (simp only: toLatLng.simps)
  have f: "feature (ngAfterContentInit ?c) =
      \<lparr>ftype = ''Feature'', properties = JObj [], geometry = \<lparr>gtype = ''Point'', coordinates = []\<rparr>\<rparr>"
    by (simp add: ngAfterContentInit_def constructor_on_map)
  have i: "initialized (ngAfterContentInit ?c)"
    by (rule initialized_ngAfterContentInit)
  have "emissions_of (setLatLng (Literal 1 2)) (ngAfterContentInit ?c) =
     [PositionChange (LatLng 1 2), LatChange 1, LngChange 2,
      GeoJSONChange \<lparr>ftype = ''Feature'', properties = JObj [],
                     geometry = \<lparr>gtype = ''Point'', coordinates = [2, 1]\<rparr>\<rparr>]"
    using after [THEN conjunct2, THEN conjunct1] by (simp add: i f)
  with a n e l show ?thesis by (intro conjI)
qed

text \<open>
  C4. A feature whose geometry type is not \<open>Point\<close> makes the \<open>geoJSON\<close> setter throw
  the unsupported-geometry error, whatever its coordinates are; for a \<open>Point\<close> feature
  the setter does not throw and is \<open>setLatLng\<close> at the converted coordinates.
\<close>

theorem geoJSON_set_geometry_type:
  "(t \<noteq> ''Point'' \<longrightarrow>
      fst (geoJSON_set lng2lat (val\<lparr>geometry := \<lparr>gtype = t, coordinates = cs\<rparr>\<rparr>) st)
        = Some (Error (''Unsupported geometry type: '' @ t))) \<and>
   geoJSON_set lng2lat (val\<lparr>geometry := \<lparr>gtype = ''Point'', coordinates = cs\<rparr>\<rparr>) st
     = (None, setLatLng (lng2lat cs) (st\<lparr>feature := (feature st)\<lparr>properties := properties val\<rparr>\<rparr>))"
  by (simp add: geoJSON_set_def Let_def)

theorem geoJSON_set_geometry_type_witness:
  "''LineString'' \<noteq> ''Point'' \<and>
   fst (geoJSON_set (\<lambda>cs. Tuple (cs ! 1) (cs ! 0))
     \<lparr>ftype = ''Feature'', properties = JObj [],
       geometry = \<lparr>gtype = ''LineString'', coordinates = [2, 1]\<rparr>\<rparr>
     (constructor (Map_addLayer ''map'')))
     = Some (Error ''Unsupported geometry type: LineString'') \<and>
   fst (geoJSON_set (\<lambda>cs. Tuple (cs ! 1) (cs ! 0))
     \<lparr>ftype = ''Feature'', properties = JObj [],
       geometry = \<lparr>gtype = ''Point'', coordinates = [2, 1]\<rparr>\<rparr>
     (constructor (Map_addLayer ''map''))) = None \<and>
   latlng (snd (geoJSON_set (\<lambda>cs. Tuple (cs ! 1) (cs ! 0))
     \<lparr>ftype = ''Feature'', properties = JObj [],
       geometry = \<lparr>gtype = ''Point'', coordinates = [2, 1]\<rparr>\<rparr>
     (constructor (Map_addLayer ''map'')))) = LatLng 1 2"
  using geoJSON_set_geometry_type [where t = "''LineString''"
      and ?lng2lat = "\<lambda>cs. Tuple (cs ! 1) (cs ! 0)"
      and val = "\<lparr>ftype = ''Feature'', properties = JObj [], geometry = \<lparr>gtype = ''X'', coordinates = []\<rparr>\<rparr>"
      and cs = "[2, 1]" and st = "constructor (Map_addLayer ''map'')"]
  by (simp add: latlng_setLatLng)

text \<open>
  C6. Reading the \<open>geoJSON\<close> getter after \<open>setLatLng p\<close> gives a feature whose
  coordinates are those of \<open>p\<close>, longitude first: for each of the three shapes of \<open>p\<close>.
\<close>

theorem setLatLng_geoJSON_roundtrip:
  "coordinates (geometry (geoJSON_get (setLatLng p st))) = [lng_of (toLatLng p), lat_of (toLatLng p)] \<and>
   coordinates (geometry (geoJSON_get (setLatLng (Tuple a b) st))) = [b, a] \<and>
   coordinates (geometry (geoJSON_get (setLatLng (Literal a b) st))) = [b, a] \<and>
   coordinates (geometry (geoJSON_get (setLatLng (Native (LatLng a b)) st))) = [b, a] \<and>
   gtype (geometry (geoJSON_get (setLatLng p st))) = ''Point''"
  by (simp add: geoJSON_get_setLatLng)

theorem setLatLng_geoJSON_roundtrip_witness:
  "coordinates (geometry (geoJSON_get (setLatLng (Tuple 1 2) (constructor (Map_addLayer ''map'')))))
     = [2, 1]"
  by (rule setLatLng_geoJSON_roundtrip [THEN conjunct2, THEN conjunct1])

text \<open>
  C9. When the \<open>geoJSON\<close> setter throws for a feature that is not a \<open>Point\<close>, the
  feature properties of the directive are already those of the input; nothing else of
  the state has changed.
\<close>

theorem geoJSON_set_not_atomic:
  assumes "gtype (geometry val) \<noteq> ''Point''"
  shows "fst (geoJSON_set lng2lat val st) = Some (Error (''Unsupported geometry type: '' @ gtype (geometry val))) \<and>
         properties_get (snd (geoJSON_set lng2lat val st)) = properties val \<and>
         snd (geoJSON_set lng2lat val st) = st\<lparr>feature := (feature st)\<lparr>properties := properties val\<rparr>\<rparr>"
  using assms by (simp add: geoJSON_set_def properties_get_def Let_def)

theorem geoJSON_set_not_atomic_witness:
  "properties_get (constructor (Map_addLayer ''map'')) = JObj [] \<and>
   fst (geoJSON_set (\<lambda>cs. Tuple (cs ! 1) (cs ! 0))
     \<lparr>ftype = ''Feature'', properties = JObj [(''name'', JStr ''a'')],
       geometry = \<lparr>gtype = ''Polygon'', coordinates = []\<rparr>\<rparr>
     (constructor (Map_addLayer ''map'')))
     = Some (Error ''Unsupported geometry type: Polygon'') \<and>
   properties_get (snd (geoJSON_set (\<lambda>cs. Tuple (cs ! 1) (cs ! 0))
     \<lparr>ftype = ''Feature'', properties = JObj [(''name'', JStr ''a'')],
       geometry = \<lparr>gtype = ''Polygon'', coordinates = []\<rparr>\<rparr>
     (constructor (Map_addLayer ''map'')))) = JObj [(''name'', JStr ''a'')]"
proof -
  let ?val = "\<lparr>ftype = ''Feature'', properties = JObj [(''name'', JStr ''a'')],
         geometry = \<lparr>gtype = ''Polygon'', coordinates = []\<rparr>\<rparr>"
  have p: "properties_get (constructor (Map_addLayer ''map'')) = JObj []"
    by (simp add: properties_get_def constructor_on_map)
  have g: "gtype (geometry ?val) \<noteq> ''Point''" by simp
  note T = geoJSON_set_not_atomic [OF g, of "\<lambda>cs. Tuple (cs ! 1) (cs ! 0)"
      "constructor (Map_addLayer ''map'')"]
  from T [THEN conjunct1] T [THEN conjunct2, THEN conjunct1] p show ?thesis by simp
qed

text \<open>
  C10. The \<open>lat\<close> setter is \<open>setLatLng\<close> at the new latitude paired with the current
  longitude, and leaves the stored longitude as it was; the \<open>lng\<close> setter likewise
  with the current latitude.
\<close>

theorem lat_lng_set_frame:
  "lat_set v st = setLatLng (Tuple v (lng_get st)) st \<and>
   lng_get (lat_set v st) = lng_get st \<and> lat_get (lat_set v st) = v \<and>
   lng_set v st = setLatLng (Tuple (lat_get st) v) st \<and>
   lat_get (lng_set v st) = lat_get st \<and> lng_get (lng_set v st) = v"
  by (simp add: lat_set_def lng_set_def lat_get_def lng_get_def latlng_setLatLng)

theorem lat_lng_set_frame_witness:
  "lng_get (lat_set 5 (constructor (Map_addLayer ''map''))) = 0 \<and>
   lat_get (lat_set 5 (constructor (Map_addLayer ''map''))) = 5 \<and>
   lat_get (lng_set 7 (lat_set 5 (constructor (Map_addLayer ''map'')))) = 5"
proof -
  let ?c = "constructor (Map_addLayer ''map'')"
  have z: "lng_get ?c = 0" by (simp add: lng_get_def constructor_on_map)
  note a = lat_lng_set_frame [of 5 ?c]
  note b = lat_lng_set_frame [of 7 "lat_set 5 ?c"]
  have "lng_get (lat_set 5 ?c) = 0"
    using a [THEN conjunct2, THEN conjunct1] z by simp
  moreover have l: "lat_get (lat_set 5 ?c) = 5"
    by (rule a [THEN conjunct2, THEN conjunct2, THEN conjunct1])
  moreover have "lat_get (lng_set 7 (lat_set 5 ?c)) = 5"
    using b [THEN conjunct2, THEN conjunct2, THEN conjunct2, THEN conjunct2, THEN conjunct1] l
    by simp
  ultimately show ?thesis by simp
qed

subsection \<open>Native add and remove events\<close>

lemma listeners_constructor:
  assumes "\<forall>s. listeners (addLayer s) = listeners s"
  shows "listeners (constructor addLayer) =
        [(''remove'', \<lambda>_. DisplayChange False), (''add'', \<lambda>_. DisplayChange True),
         (''add'', AddEvent), (''remove'', RemoveEvent), (''popupopen'', PopupopenEvent),
         (''popupclose'', PopupcloseEvent), (''tooltipopen'', TooltipopenEvent),
         (''tooltipclose'', TooltipcloseEvent), (''click'', ClickEvent),
         (''dbclick'', DbclickEvent), (''mousedown'', MousedownEvent),
         (''mouseover'', MouseoverEvent), (''mouseout'', MouseoutEvent),
         (''contextmenu'', ContextmenuEvent)]"
  using assms by (simp add: constructor_def Let_def listeners_on)

lemma listeners_display_set: "listeners (snd (display_set v st)) = listeners st"
  by (simp add: display_set_def display_get_def emit_def split: probe.splits)

lemma emissions_fire:
  "emissions_of (fire t e) st
     = map (\<lambda>(type', handler). handler e) (filter (\<lambda>(type', handler). type' = t) (listeners st))"
  by (rule emissions_ofI) (rule emitted_fire)

lemma emitted_on: "emitted (on t h st) = emitted st"
  by (simp add: on_def)

text \<open>
  The constructor calls \<open>addLayer\<close> after it has registered the two display-changed
  handlers and before it registers the handlers that re-emit events. An \<open>add\<close> event
  that \<open>addLayer\<close> fires on the circle (\<open>g\<close> being what else it does to the circle)
  runs the display-changed handler alone.
\<close>

lemma emitted_constructor_firing_add:
  assumes "\<forall>s. listeners (g s) = listeners s \<and> emitted (g s) = emitted s"
  shows "emitted (constructor (\<lambda>s. fire ''add'' ev0 (g s))) = [DisplayChange True]"
  using assms by (simp add: constructor_def Let_def emitted_on emitted_fire listeners_on)

text \<open>
  C7, as amended. Once the constructor has returned (the listeners are those that it
  registered), a native \<open>add\<close> event makes the directive emit display-changed \<open>true\<close>
  once and then the event itself on the \<open>add\<close> output; a native \<open>remove\<close> event makes
  it emit display-changed \<open>false\<close> once and then the event on the \<open>remove\<close> output.
  The \<open>display\<close> setter registers nothing and the handlers read nothing that it writes:
  the same holds after any assignment to \<open>display\<close>. An \<open>add\<close> event that the map's
  \<open>addLayer\<close> fires while the constructor runs emits display-changed \<open>true\<close> once and
  is not re-emitted.
\<close>

theorem native_add_remove_once_constructed:
  assumes "\<forall>s. listeners (addLayer s) = listeners s"
    and "listeners st = listeners (constructor addLayer)"
  shows "emissions_of (fire ''add'' ev) st = [DisplayChange True, AddEvent ev] \<and>
         emissions_of (fire ''remove'' ev) st = [DisplayChange False, RemoveEvent ev] \<and>
         emissions_of (fire ''add'' ev) (snd (display_set v st)) = [DisplayChange True, AddEvent ev] \<and>
         emissions_of (fire ''remove'' ev) (snd (display_set v st))
           = [DisplayChange False, RemoveEvent ev] \<and>
         ((\<forall>s. listeners (g s) = listeners s \<and> emitted (g s) = emitted s) \<longrightarrow>
            emitted (constructor (\<lambda>s. fire ''add'' ev0 (g s))) = [DisplayChange True])"
proof -
  have "(\<forall>s. listeners (g s) = listeners s \<and> emitted (g s) = emitted s) \<longrightarrow>
            emitted (constructor (\<lambda>s. fire ''add'' ev0 (g s))) = [DisplayChange True]"
    by (rule impI) (rule emitted_constructor_firing_add)
  then show ?thesis
    using assms(2)
    by (simp add: emissions_fire listeners_display_set listeners_constructor [OF assms(1)])
qed

theorem native_add_remove_once_constructed_witness:
  "(\<forall>s. listeners (Map_addLayer ''map'' s) = listeners s) \<and>
   emissions_of (fire ''add'' (JStr ''e'')) (constructor (Map_addLayer ''map''))
     = [DisplayChange True, AddEvent (JStr ''e'')] \<and>
   emissions_of (fire ''remove'' (JStr ''e''))
     (snd (display_set False (constructor (Map_addLayer ''map''))))
     = [DisplayChange False, RemoveEvent (JStr ''e'')] \<and>
   (\<forall>s. listeners (Path_onAdd (Some ''map'') s) = listeners s \<and>
        emitted (Path_onAdd (Some ''map'') s) = emitted s) \<and>
   emitted (constructor (\<lambda>s. fire ''add'' (JStr ''e'') (Path_onAdd (Some ''map'') s)))
     = [DisplayChange True]"
proof -
  have a: "\<forall>s. listeners (Map_addLayer ''map'' s) = listeners s"
    by (simp add: Map_addLayer_eq)
  have g: "\<forall>s. listeners (Path_onAdd (Some ''map'') s) = listeners s \<and>
        emitted (Path_onAdd (Some ''map'') s) = emitted s"
    by (simp add: Path_onAdd_def)
  note T = native_add_remove_once_constructed [OF a refl,
      of "JStr ''e''" False "Path_onAdd (Some ''map'')" "JStr ''e''"]
  have "emitted (constructor (\<lambda>s. fire ''add'' (JStr ''e'') (Path_onAdd (Some ''map'') s)))
     = [DisplayChange True]"
    using T [THEN conjunct2, THEN conjunct2, THEN conjunct2, THEN conjunct2] g by (rule mp)
  with a g T [THEN conjunct1] T [THEN conjunct2, THEN conjunct2, THEN conjunct2, THEN conjunct1]
  show ?thesis by (intro conjI)
qed

text \<open>
  C7 as stated has every native \<open>add\<close> event re-emitted. On a loaded map, \<open>addLayer\<close>
  fires \<open>add\<close> on the circle while the constructor runs: display-changed \<open>true\<close> is
  emitted, the event is not.
\<close>

theorem native_add_in_constructor_counterexample:
  "emitted (constructor (Map_addLayer ''map'')) = [DisplayChange True]"
  by (simp add: constructor_on_map)

subsection \<open>The display property\<close>

lemma emitted_display_set:
  "emitted (snd (display_set v st)) = emitted st @
     (case element st of
        Throws \<Rightarrow> []
      | Undefined \<Rightarrow> []
      | Element container \<Rightarrow>
          if (style_display container \<noteq> ''none'' \<and> parentElement container \<noteq> None) \<noteq> v
          then [DisplayChange v] else [])"
  by (auto simp: display_set_def display_get_def emit_def split: probe.splits)

text \<open>
  When probing the container raises, the setter declines without an error and the getter
  returns false. When the probe returns \<open>undefined\<close>, getter and setter raise.
\<close>

lemma display_Throws:
  "element st = Throws \<Longrightarrow> display_set v st = (None, st) \<and> display_get st = Inr False"
  by (simp add: display_set_def display_get_def)

lemma display_Undefined:
  "element st = Undefined \<Longrightarrow>
     display_set v st = (Some TypeError, st) \<and> display_get st = Inl TypeError"
  by (simp add: display_set_def display_get_def)

text \<open>
  Where the setter's guard works: when \<open>v\<close> is false, or the container has a parent
  element, or there is no container, the second of two consecutive assignments of \<open>v\<close>
  changes nothing and emits nothing, and the first emits at most once.
\<close>

lemma display_set_twice_guarded:
  assumes "\<not> (v \<and> detached st)"
  shows "snd (display_set v (snd (display_set v st))) = snd (display_set v st) \<and>
         emissions_of (\<lambda>s. snd (display_set v s)) (snd (display_set v st)) = [] \<and>
         length (emissions_of (\<lambda>s. snd (display_set v s)) st) \<le> 1"
proof -
  have idem: "snd (display_set v (snd (display_set v st))) = snd (display_set v st)"
    using assms
    by (cases "element st")
      (auto simp: display_set_def display_get_def detached_def emit_def)
  have "length (emissions_of (\<lambda>s. snd (display_set v s)) st) \<le> 1"
    by (simp add: emissions_of_def emitted_display_set split: probe.splits)
  then show ?thesis by (simp add: emissions_of_def idem)
qed

text \<open>
  On a container without a parent element the getter is false whatever \<open>style.display\<close>
  is. An assignment of \<open>true\<close> then passes the guard, emits display-changed \<open>true\<close>
  and leaves the getter false, so that the next assignment of \<open>true\<close> does the same.
\<close>

lemma display_set_true_detached:
  assumes "detached st"
  shows "fst (display_set True st) = None \<and>
         emissions_of (\<lambda>s. snd (display_set True s)) st = [DisplayChange True] \<and>
         display_get (snd (display_set True st)) = Inr False \<and>
         detached (snd (display_set True st))"
  using assms
  by (cases "element st")
    (auto simp: display_set_def display_get_def detached_def emit_def emissions_of_def)

text \<open>
  C5. The claim fails on the code. After the renderer has taken the circle's element out
  of its container, two consecutive assignments of \<open>true\<close> to \<open>display\<close> each emit
  display-changed \<open>true\<close>: the second assignment does not return at the guard, and
  the getter returns false before, between and after the two.
\<close>

theorem display_set_true_twice_detached:
  "display_get (Path_onRemove (Some ''map'') (constructor (Map_addLayer ''map''))) = Inr False \<and>
   emissions_of (\<lambda>s. snd (display_set True s))
     (Path_onRemove (Some ''map'') (constructor (Map_addLayer ''map'')))
     = [DisplayChange True] \<and>
   display_get (snd (display_set True
     (Path_onRemove (Some ''map'') (constructor (Map_addLayer ''map''))))) = Inr False \<and>
   emissions_of (\<lambda>s. snd (display_set True s))
     (snd (display_set True (Path_onRemove (Some ''map'') (constructor (Map_addLayer ''map'')))))
     = [DisplayChange True] \<and>
   display_get (snd (display_set True (snd (display_set True
     (Path_onRemove (Some ''map'') (constructor (Map_addLayer ''map''))))))) = Inr False"
proof -
  let ?d = "Path_onRemove (Some ''map'') (constructor (Map_addLayer ''map''))"
  have e: "element ?d = Element \<lparr>style_display = '''', parentElement = None\<rparr>"
    by (simp add: Path_onRemove_def constructor_on_map)
  have d: "detached ?d" by (simp add: detached_def e)
  have g: "display_get ?d = Inr False" by (simp add: display_get_def e)
  note first = display_set_true_detached [OF d]
  note second = display_set_true_detached [OF first [THEN conjunct2, THEN conjunct2, THEN conjunct2]]
  from g first [THEN conjunct2, THEN conjunct1]
    first [THEN conjunct2, THEN conjunct2, THEN conjunct1]
    second [THEN conjunct2, THEN conjunct1]
    second [THEN conjunct2, THEN conjunct2, THEN conjunct1]
  show ?thesis by (intro conjI)
qed

subsection \<open>The interactive property\<close>




end
